theory Spec2Isabelle
  imports Complex_Main
begin

section \<open>Values of the program\<close>

text \<open>
  The program is the vocabulary trainer of \<^verbatim>\<open>A word.py\<close>. Its strings are Python
  \<^verbatim>\<open>str\<close> values, sequences of Unicode code points, here lists of naturals. Numbers:
  a Python \<^verbatim>\<open>int\<close> is an \<^typ>\<open>int\<close>; a Python \<^verbatim>\<open>float\<close> is read as the real number it
  stands for, so rounding, infinities and NaN are outside this development.
\<close>

type_synonym ustr = "nat list"

definition ustr :: "string \<Rightarrow> ustr" where
  "ustr s = map of_char s"

datatype exn =
  TypeError | ValueError | IndexError | KeyError | AttributeError | JSONDecodeError

text \<open>Python's \<^verbatim>\<open>xs[i]\<close> on a list: a negative index counts from the end.\<close>

definition py_index :: "'a list \<Rightarrow> int \<Rightarrow> exn + 'a" where
  "py_index xs i =
     (let len = int (length xs); j = (if i < 0 then len + i else i)
      in if 0 \<le> j \<and> j < len then Inr (xs ! nat j) else Inl IndexError)"

text \<open>
  A decoded JSON document, as \<^verbatim>\<open>json.load\<close> returns it. A JSON number is kept as its
  value, whether written as an integer or not.
\<close>

datatype json =
  JNull
| JBool bool
| JNum real
| JStr ustr
| JArr "json list"
| JObj "(ustr \<times> json) list"

text \<open>
  One learned item, the dictionary held in \<^verbatim>\<open>VocabularyApp.words\<close>. The field \<open>w_k\<close> is
  the key \<^verbatim>\<open>"k"\<close>; \<^verbatim>\<open>is_new\<close> and \<^verbatim>\<open>learn_date\<close> are keys that a dictionary may lack.
  \<^verbatim>\<open>word\<close> and \<^verbatim>\<open>translation\<close> hold whatever the cache file gave, so they are JSON values.
\<close>

record word_state =
  w_word :: json
  w_translation :: json
  w_ef :: real
  w_n :: int
  w_interval :: real
  w_last_review :: int
  w_is_new :: "bool option"
  w_learn_date :: "ustr option"

section \<open>MemoryAlgorithm\<close>

definition initial_ef :: real where
  "initial_ef = 2.5"

definition initial_interval :: "int \<Rightarrow> exn + int" where
  "initial_interval k = py_index [1, 6] (min k 1)"

definition next_interval :: "real \<Rightarrow> real \<Rightarrow> real" where
  "next_interval prev_interval e = prev_interval * e"

definition update_ef :: "real \<Rightarrow> int \<Rightarrow> real" where
  "update_ef e q =
     (let e' = e + (0.1 - (5 - of_int q) * (0.08 + (5 - of_int q) * 0.02))
      in max e' 1.3)"

definition review_weight :: "word_state \<Rightarrow> int \<Rightarrow> real" where
  "review_weight w now =
     (let elapsed = of_int (now - w_last_review w) / (86400 * 1000)
      in if w_interval w > 0 then elapsed / w_interval w else 1.0)"

section \<open>VocabularyApp.answer\<close>

text \<open>
  The body of \<^verbatim>\<open>answer\<close> on the dictionary \<^verbatim>\<open>w = self.words[self.idx]\<close>. The dictionary is
  updated in place, so an exception leaves the updates made before it: the result is the
  exception, if any, and the dictionary as it then stands.
\<close>

definition answer_word :: "int \<Rightarrow> int \<Rightarrow> word_state \<Rightarrow> exn option \<times> word_state" where
  "answer_word q now w =
     (let r =
        (if q < 3 then
           (let w1 = w\<lparr>w_n := 0\<rparr>
            in case initial_interval 0 of
                 Inl e \<Rightarrow> (Some e, w1)
               | Inr i \<Rightarrow> (None, w1\<lparr>w_interval := of_int i\<rparr>))
         else
           (let w1 = w\<lparr>w_n := w_n w + 1\<rparr>;
                w2 = w1\<lparr>w_ef := update_ef (w_ef w1) q\<rparr>
            in if w_n w2 = 1 then
                 (case initial_interval 1 of
                    Inl e \<Rightarrow> (Some e, w2)
                  | Inr i \<Rightarrow> (None, w2\<lparr>w_interval := of_int i\<rparr>))
               else (None, w2\<lparr>w_interval := next_interval (w_interval w2) (w_ef w2)\<rparr>)))
      in case r of
           (Some e, w') \<Rightarrow> (Some e, w')
         | (None, w') \<Rightarrow> (None, w'\<lparr>w_last_review := now, w_is_new := None\<rparr>))"

section \<open>Reading the word list\<close>

text \<open>
  \<^verbatim>\<open>str.isspace\<close> on one code point: the whitespace of \<^verbatim>\<open>str.strip()\<close> and of
  \<^verbatim>\<open>str.split()\<close> without a separator.
\<close>

definition isspace :: "nat \<Rightarrow> bool" where
  "isspace c =
     ((9 \<le> c \<and> c \<le> 13) \<or> (28 \<le> c \<and> c \<le> 32) \<or> c = 133 \<or> c = 160 \<or> c = 5760
      \<or> (8192 \<le> c \<and> c \<le> 8202) \<or> c = 8232 \<or> c = 8233 \<or> c = 8239 \<or> c = 8287
      \<or> c = 12288)"

definition strip :: "ustr \<Rightarrow> ustr" where
  "strip s = rev (dropWhile isspace (rev (dropWhile isspace s)))"

text \<open>\<^verbatim>\<open>s.split(sep)\<close> for a separator of one code point; \<open>acc\<close> is the field being read, reversed.\<close>

fun split_sep :: "nat \<Rightarrow> ustr \<Rightarrow> ustr \<Rightarrow> ustr list" where
  "split_sep sep acc [] = [rev acc]"
| "split_sep sep acc (c # cs) =
     (if c = sep then rev acc # split_sep sep [] cs else split_sep sep (c # acc) cs)"

text \<open>
  \<^verbatim>\<open>s.split(maxsplit=1)\<close>: the first run of non-whitespace, then, after the whitespace that
  follows it, the rest of the string as it is.
\<close>

definition split_maxsplit1 :: "ustr \<Rightarrow> ustr list" where
  "split_maxsplit1 s =
     (let s1 = dropWhile isspace s
      in if s1 = [] then []
         else (let first = takeWhile (\<lambda>c. \<not> isspace c) s1;
                   rest = dropWhile isspace (dropWhile (\<lambda>c. \<not> isspace c) s1)
               in if rest = [] then [first] else [first, rest]))"

definition tab :: nat where
  "tab = 9"

text \<open>
  \<^verbatim>\<open>[ln.strip() for ln in f if ln.strip()]\<close>, where \<open>f\<close> is the opened word-list file, given by
  its lines.
\<close>

definition stripped_lines :: "ustr list \<Rightarrow> ustr list" where
  "stripped_lines f = map strip (filter (\<lambda>line. strip line \<noteq> []) f)"

text \<open>An entry of \<^verbatim>\<open>_all_words\<close>; the field \<open>a_k\<close> is the key \<^verbatim>\<open>"k"\<close>.\<close>

record entry =
  a_word :: ustr
  a_translation :: ustr
  a_is_learned :: bool

definition split_line :: "ustr \<Rightarrow> ustr list" where
  "split_line line =
     (if tab \<in> set line then split_sep tab [] line else split_maxsplit1 line)"

text \<open>The list comprehension of \<^verbatim>\<open>_load_all\<close>, every entry not learned at first.\<close>

definition all_entries :: "ustr list \<Rightarrow> entry list" where
  "all_entries f =
     concat (map (\<lambda>line. case split_line line of
                          [p0, p1] \<Rightarrow> [\<lparr>a_word = p0, a_translation = p1, a_is_learned = False\<rparr>]
                        | _ \<Rightarrow> [])
                 (stripped_lines f))"

section \<open>The JSON cache: WordListManager\<close>

definition exn_bind :: "exn + 'a \<Rightarrow> ('a \<Rightarrow> exn + 'b) \<Rightarrow> exn + 'b" where
  "exn_bind x f = (case x of Inl e \<Rightarrow> Inl e | Inr v \<Rightarrow> f v)"

text \<open>\<^verbatim>\<open>doc.get("WORDLIST", [])\<close>: only a dictionary has the method.\<close>

definition get_WORDLIST :: "json \<Rightarrow> exn + json" where
  "get_WORDLIST doc =
     (case doc of
        JObj kvs \<Rightarrow> (case map_of kvs (ustr ''WORDLIST'') of None \<Rightarrow> Inr (JArr []) | Some v \<Rightarrow> Inr v)
      | _ \<Rightarrow> Inl AttributeError)"

text \<open>\<^verbatim>\<open>for w in data\<close>: a list gives its items, a string its characters, a dictionary its keys.\<close>

definition py_iter :: "json \<Rightarrow> exn + json list" where
  "py_iter data =
     (case data of
        JArr xs \<Rightarrow> Inr xs
      | JStr s \<Rightarrow> Inr (map (\<lambda>c. JStr [c]) s)
      | JObj kvs \<Rightarrow> Inr (map (\<lambda>kv. JStr (fst kv)) kvs)
      | _ \<Rightarrow> Inl TypeError)"

text \<open>\<^verbatim>\<open>w[i]\<close> for an integer \<open>i\<close>; the keys of a decoded dictionary are strings, never \<open>i\<close>.\<close>

definition py_getitem :: "json \<Rightarrow> int \<Rightarrow> exn + json" where
  "py_getitem w i =
     (case w of
        JArr xs \<Rightarrow> py_index xs i
      | JStr s \<Rightarrow> py_index (map (\<lambda>c. JStr [c]) s) i
      | JObj kvs \<Rightarrow> Inl KeyError
      | _ \<Rightarrow> Inl TypeError)"

text \<open>\<^verbatim>\<open>int(x)\<close> on a float drops the fraction.\<close>

definition trunc :: "real \<Rightarrow> int" where
  "trunc r = (if 0 \<le> r then \<lfloor>r\<rfloor> else \<lceil>r\<rceil>)"

text \<open>
  \<^verbatim>\<open>float(x)\<close> and \<^verbatim>\<open>int(x)\<close>. How Python reads a number from a string is not part of the
  program: \<open>str_float\<close> and \<open>str_int\<close> stand for it, \<open>None\<close> where Python raises ValueError.
\<close>

definition py_float :: "(ustr \<Rightarrow> real option) \<Rightarrow> json \<Rightarrow> exn + real" where
  "py_float str_float x =
     (case x of
        JNum r \<Rightarrow> Inr r
      | JBool b \<Rightarrow> Inr (if b then 1 else 0)
      | JStr s \<Rightarrow> (case str_float s of None \<Rightarrow> Inl ValueError | Some r \<Rightarrow> Inr r)
      | _ \<Rightarrow> Inl TypeError)"

definition py_int :: "(ustr \<Rightarrow> int option) \<Rightarrow> json \<Rightarrow> exn + int" where
  "py_int str_int x =
     (case x of
        JNum r \<Rightarrow> Inr (trunc r)
      | JBool b \<Rightarrow> Inr (if b then 1 else 0)
      | JStr s \<Rightarrow> (case str_int s of None \<Rightarrow> Inl ValueError | Some i \<Rightarrow> Inr i)
      | _ \<Rightarrow> Inl TypeError)"

text \<open>One dictionary of the comprehension in \<^verbatim>\<open>load_wordlist\<close>, its values in the order written.\<close>

definition load_item ::
  "(ustr \<Rightarrow> real option) \<Rightarrow> (ustr \<Rightarrow> int option) \<Rightarrow> json \<Rightarrow> exn + word_state" where
  "load_item str_float str_int w =
     exn_bind (py_getitem w 0) (\<lambda>w0.
     exn_bind (py_getitem w 1) (\<lambda>w1.
     exn_bind (exn_bind (py_getitem w 2) (py_float str_float)) (\<lambda>w2.
     exn_bind (exn_bind (py_getitem w 3) (py_int str_int)) (\<lambda>w3.
     exn_bind (exn_bind (py_getitem w 4) (py_float str_float)) (\<lambda>w4.
     exn_bind (exn_bind (py_getitem w 5) (py_int str_int)) (\<lambda>w5.
       Inr \<lparr>w_word = w0, w_translation = w1, w_ef = w2, w_n = w3, w_interval = w4,
            w_last_review = w5, w_is_new = None, w_learn_date = None\<rparr>))))))"

fun load_items ::
  "(ustr \<Rightarrow> real option) \<Rightarrow> (ustr \<Rightarrow> int option) \<Rightarrow> json list \<Rightarrow> exn + word_state list" where
  "load_items str_float str_int [] = Inr []"
| "load_items str_float str_int (w # ws) =
     exn_bind (load_item str_float str_int w) (\<lambda>x.
     exn_bind (load_items str_float str_int ws) (\<lambda>xs. Inr (x # xs)))"

text \<open>
  The \<^verbatim>\<open>try\<close> block of \<^verbatim>\<open>load_wordlist\<close>. \<open>opened\<close> is what \<^verbatim>\<open>json.load(f)\<close> on the opened
  cache file gives: the decoded document, or the exception of opening, decoding or parsing.
\<close>

definition load_cache ::
  "(ustr \<Rightarrow> real option) \<Rightarrow> (ustr \<Rightarrow> int option) \<Rightarrow> exn + json \<Rightarrow> exn + word_state list" where
  "load_cache str_float str_int opened =
     exn_bind opened (\<lambda>doc.
     exn_bind (get_WORDLIST doc) (\<lambda>data.
     exn_bind (py_iter data) (load_items str_float str_int)))"

text \<open>
  \<^verbatim>\<open>load_wordlist\<close>. \<open>f\<close> is the opened word-list file, by its lines; \<open>cache\<close> is \<open>None\<close> when
  the cache file does not exist. Every exception of the \<^verbatim>\<open>try\<close> block is caught by
  \<^verbatim>\<open>except Exception\<close>, and \<open>learned\<close> is then still the empty list.
\<close>

definition load_wordlist ::
  "(ustr \<Rightarrow> real option) \<Rightarrow> (ustr \<Rightarrow> int option) \<Rightarrow> ustr list \<Rightarrow> (exn + json) option
     \<Rightarrow> word_state list \<times> nat" where
  "load_wordlist str_float str_int f cache =
     (let raw = stripped_lines f;
          total = length raw;
          learned =
            (case cache of
               None \<Rightarrow> []
             | Some opened \<Rightarrow>
                 (case load_cache str_float str_int opened of
                    Inl e \<Rightarrow> []
                  | Inr l \<Rightarrow> l))
      in (learned, total))"

text \<open>
  \<^verbatim>\<open>save_wordlist\<close>: the document handed to \<^verbatim>\<open>json.dump\<close>, which is also what \<^verbatim>\<open>json.load\<close>
  reads back from the file written.
\<close>

definition save_row :: "word_state \<Rightarrow> json" where
  "save_row w =
     JArr [w_word w, w_translation w, JNum (w_ef w), JNum (of_int (w_n w)),
           JNum (w_interval w), JNum (of_int (w_last_review w))]"

definition save_wordlist :: "word_state list \<Rightarrow> json" where
  "save_wordlist ws = JObj [(ustr ''WORDLIST'', JArr (map save_row ws))]"

section \<open>The random module\<close>

text \<open>
  The generator's state is outside the program: a draw takes the raw number \<open>r\<close> that the
  generator produces. \<^verbatim>\<open>random()\<close> is a multiple of \<open>1 / 2 ^ 53\<close> in \<open>[0, 1)\<close>;
  \<^verbatim>\<open>_randbelow(k)\<close> lies below \<open>k\<close>.
\<close>

definition random :: "nat \<Rightarrow> real" where
  "random r = real (r mod 2 ^ 53) / 2 ^ 53"

definition randbelow :: "nat \<Rightarrow> nat \<Rightarrow> nat" where
  "randbelow k r = r mod k"

definition choice :: "'a list \<Rightarrow> nat \<Rightarrow> exn + 'a" where
  "choice seq r =
     (if length seq = 0 then Inl IndexError else Inr (seq ! randbelow (length seq) r))"

text \<open>\<^verbatim>\<open>itertools.accumulate\<close>: the running sums; \<open>acc\<close> is the sum so far.\<close>

fun accumulate_from :: "real \<Rightarrow> real list \<Rightarrow> real list" where
  "accumulate_from acc [] = []"
| "accumulate_from acc (x # xs) = (acc + x) # accumulate_from (acc + x) xs"

definition accumulate :: "real list \<Rightarrow> real list" where
  "accumulate xs = (case xs of [] \<Rightarrow> [] | x # xs' \<Rightarrow> x # accumulate_from x xs')"

text \<open>\<^verbatim>\<open>bisect.bisect_right(a, x, lo, hi)\<close>, the binary search as the library runs it.\<close>

function bisect :: "real list \<Rightarrow> real \<Rightarrow> nat \<Rightarrow> nat \<Rightarrow> exn + nat" where
  "bisect a x lo hi =
     (if lo < hi then
        (let mid = (lo + hi) div 2
         in if mid < length a then
              (if x < a ! mid then bisect a x lo mid else bisect a x (mid + 1) hi)
            else Inl IndexError)
      else Inr lo)"
  by pat_completeness auto
termination
  by (relation "measure (\<lambda>(a, x, lo, hi). hi - lo)") auto

text \<open>
  \<^verbatim>\<open>random.choices(population, weights=weights)[0]\<close> as CPython 3.9 and later run it: the
  total of the weights must be positive. (The test that the total is finite is always
  passed by a real number.)
\<close>

definition choices :: "'a list \<Rightarrow> real list \<Rightarrow> nat \<Rightarrow> exn + 'a" where
  "choices population weights r =
     (let k = length population;
          cum_weights = accumulate weights
      in if length cum_weights \<noteq> k then Inl ValueError
         else
           exn_bind (py_index cum_weights (- 1)) (\<lambda>total.
             if total \<le> 0 then Inl ValueError
             else
               exn_bind (bisect cum_weights (random r * total) 0 (k - 1)) (\<lambda>i.
                 py_index population (int i))))"

section \<open>VocabularyApp\<close>

datatype cfgval = CStr ustr | CInt int

text \<open>
  The fields of \<^verbatim>\<open>VocabularyApp\<close> that the engine reads or writes. \<open>curr_path\<close> is the path
  of the selected list \<^verbatim>\<open>curr\<close>, \<open>None\<close> when no list is selected; \<open>all_words_cache\<close> is \<^verbatim>\<open>_all_words\<close>; \<open>total_words\<close> is \<^verbatim>\<open>total\<close>;
  \<open>settings_file\<close> is what \<^verbatim>\<open>save_settings\<close> wrote last, \<open>None\<close> before the first write.
\<close>

record app =
  curr_path :: "ustr option"
  words :: "word_state list"
  all_words_cache :: "entry list option"
  total_words :: nat
  idx :: nat
  rand :: bool
  review_only :: bool
  cfg :: "ustr \<Rightarrow> cfgval option"
  limit :: int
  today :: ustr
  today_count :: int
  settings_file :: "(ustr \<Rightarrow> cfgval option) option"

text \<open>
  The quota part of \<^verbatim>\<open>__init__\<close>: \<open>cfg0\<close> is the result of \<^verbatim>\<open>load_settings()\<close>, \<open>d\<close> is
  \<^verbatim>\<open>str(date.today())\<close>.
\<close>

definition cfg_int :: "(ustr \<Rightarrow> int option) \<Rightarrow> (ustr \<Rightarrow> cfgval option) \<Rightarrow> ustr \<Rightarrow> exn + int" where
  "cfg_int str_int c k =
     (case c k of
        None \<Rightarrow> Inl KeyError
      | Some (CInt i) \<Rightarrow> Inr i
      | Some (CStr s) \<Rightarrow> (case str_int s of None \<Rightarrow> Inl ValueError | Some i \<Rightarrow> Inr i))"

definition init_app ::
  "(ustr \<Rightarrow> int option) \<Rightarrow> (ustr \<Rightarrow> cfgval option) \<Rightarrow> ustr \<Rightarrow> exn + app" where
  "init_app str_int cfg0 d =
     exn_bind (cfg_int str_int cfg0 (ustr ''DAILY_NEW_LIMIT'')) (\<lambda>lim.
     exn_bind (cfg_int str_int cfg0 (ustr ''TODAY_COUNT'')) (\<lambda>cnt.
       (let a = \<lparr>curr_path = None, words = [], all_words_cache = None, total_words = 0, idx = 0,
                  rand = False, review_only = False, cfg = cfg0, limit = lim, today = d,
                  today_count = cnt, settings_file = None\<rparr>
        in case cfg0 (ustr ''TODAY_DATE'') of
             None \<Rightarrow> Inl KeyError
           | Some v \<Rightarrow>
               if v \<noteq> CStr d then
                 (let c = (cfg0(ustr ''TODAY_DATE'' \<mapsto> CStr d))(ustr ''TODAY_COUNT'' \<mapsto> CInt 0)
                  in Inr (a\<lparr>today_count := 0, cfg := c, settings_file := Some c\<rparr>))
               else Inr a)))"

text \<open>
  \<^verbatim>\<open>_load_all\<close>; \<open>f\<close> is the opened file of the selected list. The set of learned words
  takes hashable values only: a word of the cache that is a list or a dictionary raises
  TypeError, after \<^verbatim>\<open>_all_words\<close> has been assigned.
\<close>

definition unhashable :: "json \<Rightarrow> bool" where
  "unhashable v = (case v of JArr xs \<Rightarrow> True | JObj kvs \<Rightarrow> True | _ \<Rightarrow> False)"

definition load_all :: "ustr list \<Rightarrow> app \<Rightarrow> exn option \<times> app" where
  "load_all f a =
     (if curr_path a = None then (None, a)
      else
        (let aw = all_entries f;
             a1 = a\<lparr>all_words_cache := Some aw\<rparr>
         in if list_ex (\<lambda>w. unhashable (w_word w)) (words a) then (Some TypeError, a1)
            else
              (let learned_words = set (map w_word (words a))
               in (None, a1\<lparr>all_words_cache :=
                     Some (map (\<lambda>w. w\<lparr>a_is_learned := JStr (a_word w) \<in> learned_words\<rparr>) aw)\<rparr>))))"

text \<open>The property \<^verbatim>\<open>all_words\<close>: its value is \<open>None\<close> when no list is selected.\<close>

definition all_words :: "ustr list \<Rightarrow> app \<Rightarrow> (exn + entry list option) \<times> app" where
  "all_words f a =
     (case all_words_cache a of
        None \<Rightarrow>
          (case load_all f a of
             (Some e, a') \<Rightarrow> (Inl e, a')
           | (None, a') \<Rightarrow> (Inr (all_words_cache a'), a'))
      | Some aw \<Rightarrow> (Inr (Some aw), a))"

text \<open>What \<^verbatim>\<open>get_word\<close> returns: one of its three kinds of dictionary.\<close>

datatype selection =
  NewItem (sel_word: ustr) (sel_translation: ustr) (sel_is_new: bool) (temp_new_word: word_state)
| ReviewItem word_state
| Error ustr

text \<open>The day-boundary block at the head of \<^verbatim>\<open>get_word\<close>; \<open>d\<close> is \<^verbatim>\<open>str(date.today())\<close>.\<close>

definition rollover :: "ustr \<Rightarrow> app \<Rightarrow> app" where
  "rollover d a =
     (if d \<noteq> today a then
        (let c = ((cfg a)(ustr ''TODAY_DATE'' \<mapsto> CStr d))(ustr ''TODAY_COUNT'' \<mapsto> CInt 0)
         in a\<lparr>today := d, today_count := 0, cfg := c, settings_file := Some c\<rparr>)
      else a)"

text \<open>The second half of \<^verbatim>\<open>get_word\<close>, after the new-word block: the review branch and the errors.\<close>

definition get_word_review :: "int \<Rightarrow> ustr list \<Rightarrow> nat \<Rightarrow> app \<Rightarrow> (exn + selection) \<times> app" where
  "get_word_review now f r a =
     (if words a \<noteq> [] then
        (let weights = map (\<lambda>w. review_weight w now) (words a)
         in case choices [0 ..< length (words a)] weights r of
              Inl e \<Rightarrow> (Inl e, a)
            | Inr i \<Rightarrow>
                (case py_index (words a) (int i) of
                   Inl e \<Rightarrow> (Inl e, a\<lparr>idx := i\<rparr>)
                 | Inr w \<Rightarrow> (Inr (ReviewItem w), a\<lparr>idx := i\<rparr>)))
      else
        (case all_words f a of
           (Inl e, a') \<Rightarrow> (Inl e, a')
         | (Inr None, a') \<Rightarrow> (Inr (Error (ustr ''no_words'')), a')
         | (Inr (Some aw), a') \<Rightarrow>
             (if aw \<noteq> [] then (Inr (Error (ustr ''no_learned_words'')), a')
              else (Inr (Error (ustr ''no_words'')), a'))))"

text \<open>
  \<^verbatim>\<open>get_word\<close>. \<open>d\<close> is the date and \<open>now\<close> the time in milliseconds that the clock gives during
  the call, \<open>f\<close> the opened file of the selected list, \<open>r\<close> the number drawn by the generator.
  Iterating over \<^verbatim>\<open>all_words\<close> when it is \<^verbatim>\<open>None\<close> raises TypeError.
\<close>

definition get_word :: "ustr \<Rightarrow> int \<Rightarrow> ustr list \<Rightarrow> nat \<Rightarrow> app \<Rightarrow> (exn + selection) \<times> app" where
  "get_word d now f r a0 =
     (let a = rollover d a0
      in if \<not> review_only a \<and> today_count a < limit a then
           (case all_words f a of
              (Inl e, a') \<Rightarrow> (Inl e, a')
            | (Inr None, a') \<Rightarrow> (Inl TypeError, a')
            | (Inr (Some aw), a') \<Rightarrow>
                (let unlearned = filter (\<lambda>w. \<not> a_is_learned w) aw
                 in if unlearned \<noteq> [] then
                      (case choice unlearned r of
                         Inl e \<Rightarrow> (Inl e, a')
                       | Inr w \<Rightarrow>
                           (let new_word =
                                  \<lparr>w_word = JStr (a_word w), w_translation = JStr (a_translation w),
                                   w_ef = initial_ef, w_n = 0, w_interval = 1, w_last_review = now,
                                   w_is_new = Some True, w_learn_date = Some d\<rparr>
                            in (Inr (NewItem (a_word w) (a_translation w) True new_word), a')))
                    else get_word_review now f r a'))
         else get_word_review now f r a)"

text \<open>
  \<^verbatim>\<open>answer\<close>: the item \<^verbatim>\<open>self.words[self.idx]\<close> is updated in place; IndexError when there is
  no such item.
\<close>

definition answer :: "int \<Rightarrow> int \<Rightarrow> app \<Rightarrow> exn option \<times> app" where
  "answer q now a =
     (case py_index (words a) (int (idx a)) of
        Inl e \<Rightarrow> (Some e, a)
      | Inr w \<Rightarrow>
          (case answer_word q now w of
             (e, w') \<Rightarrow> (e, a\<lparr>words := (words a)[idx a := w']\<rparr>)))"

section \<open>The scheduling rule\<close>

lemma initial_interval_0: "initial_interval 0 = Inr 1"
  by (simp add: initial_interval_def py_index_def)

lemma initial_interval_1: "initial_interval 1 = Inr 6"
  by (simp add: initial_interval_def py_index_def)

lemma py_index_nat: "i < length xs \<Longrightarrow> py_index xs (int i) = Inr (xs ! i)"
  by (simp add: py_index_def)

lemma answer_word_fail:
  "q < 3 \<Longrightarrow>
   answer_word q now w =
     (None, w\<lparr>w_n := 0, w_interval := 1, w_last_review := now, w_is_new := None\<rparr>)"
  by (simp add: answer_word_def initial_interval_0)

lemma answer_word_pass:
  "\<not> q < 3 \<Longrightarrow>
   answer_word q now w =
     (None, w\<lparr>w_n := w_n w + 1, w_ef := update_ef (w_ef w) q,
              w_interval := (if w_n w = 0 then 6 else w_interval w * update_ef (w_ef w) q),
              w_last_review := now, w_is_new := None\<rparr>)"
  by (simp add: answer_word_def initial_interval_1 Let_def next_interval_def)

lemma update_ef_ge: "1.3 \<le> update_ef e q"
  by (simp add: update_ef_def Let_def)

text \<open>
  C3. A failed recall, \<open>0 \<le> q < 3\<close>, on the active item: \<^verbatim>\<open>answer\<close> returns without an
  exception, the item's repetition count becomes 0 and its interval 1, whatever they were,
  and its ease factor stays as it was.
\<close>

theorem answer_failed_recall:
  assumes "idx a < length (words a)" and "0 \<le> q" and "q < 3"
  shows "\<exists>a'. answer q now a = (None, a')
           \<and> length (words a') = length (words a)
           \<and> w_n (words a' ! idx a) = 0
           \<and> w_interval (words a' ! idx a) = 1
           \<and> w_ef (words a' ! idx a) = w_ef (words a ! idx a)"
  using assms by (simp add: answer_def py_index_nat answer_word_fail)

theorem answer_failed_recall_witness:
  "\<exists>a'. answer 2 5000
           \<lparr>curr_path = None,
            words = [\<lparr>w_word = JStr (ustr ''a''), w_translation = JStr (ustr ''b''), w_ef = 2.7,
                      w_n = 4, w_interval = 40, w_last_review = 1000, w_is_new = None,
                      w_learn_date = None\<rparr>],
            all_words_cache = None, total_words = 1, idx = 0, rand = False, review_only = False,
            cfg = Map.empty, limit = 50, today = ustr ''2024-01-01'', today_count = 0,
            settings_file = None\<rparr> = (None, a')
         \<and> length (words a') = 1
         \<and> w_n (words a' ! 0) = 0
         \<and> w_interval (words a' ! 0) = 1
         \<and> w_ef (words a' ! 0) = 2.7"
  using answer_failed_recall [of
           "\<lparr>curr_path = None,
            words = [\<lparr>w_word = JStr (ustr ''a''), w_translation = JStr (ustr ''b''), w_ef = 2.7,
                      w_n = 4, w_interval = 40, w_last_review = 1000, w_is_new = None,
                      w_learn_date = None\<rparr>],
            all_words_cache = None, total_words = 1, idx = 0, rand = False, review_only = False,
            cfg = Map.empty, limit = 50, today = ustr ''2024-01-01'', today_count = 0,
            settings_file = None\<rparr>" 2 5000]
  by simp

text \<open>
  C4. For an ease factor \<open>e \<ge> 1.3\<close> and a quality \<open>q\<close> from 0 to 5, \<^verbatim>\<open>update_ef\<close> is
  \<open>e + 0.1 - (5 - q) * (0.08 + (5 - q) * 0.02)\<close> clamped below at 1.3, so the result is at
  least 1.3; from 2.5, quality 5 gives 2.6, quality 4 gives 2.5 and quality 3 gives 2.36.
\<close>

theorem update_ef_formula:
  assumes "1.3 \<le> e" and "0 \<le> q" and "q \<le> 5"
  shows "update_ef e q = max (e + 0.1 - (5 - of_int q) * (0.08 + (5 - of_int q) * 0.02)) 1.3
         \<and> 1.3 \<le> update_ef e q
         \<and> update_ef 2.5 5 = 2.6 \<and> update_ef 2.5 4 = 2.5 \<and> update_ef 2.5 3 = 2.36"
  by (simp add: update_ef_def Let_def)

theorem update_ef_formula_witness:
  "(1.3::real) \<le> 2 \<and> (0::int) \<le> 1 \<and> (1::int) \<le> 5 \<and> update_ef 2 1 = 1.46
   \<and> update_ef 1.3 0 = 1.3 \<and> 1.3 \<le> update_ef 2 1"
  using update_ef_formula [of 2 1] update_ef_formula [of "1.3" 0] by simp

text \<open>
  C7, as amended. A successful recall, \<open>3 \<le> q \<le> 5\<close>, on an active item with ease factor at
  least 1 and a positive interval that is at most 6 while the repetition count is 0: the
  interval after \<^verbatim>\<open>answer\<close> is at least the interval before. The first success sets the
  interval to 6; a later one multiplies it by the updated ease factor.
\<close>

theorem answer_interval_grows:
  assumes "idx a < length (words a)" and "1.0 \<le> w_ef (words a ! idx a)"
    and "3 \<le> q" and "q \<le> 5"
    and "0 < w_interval (words a ! idx a)"
    and "w_n (words a ! idx a) = 0 \<longrightarrow> w_interval (words a ! idx a) \<le> 6"
  shows "\<exists>a'. answer q now a = (None, a')
           \<and> length (words a') = length (words a)
           \<and> w_interval (words a ! idx a) \<le> w_interval (words a' ! idx a)
           \<and> w_interval (words a' ! idx a) =
               (if w_n (words a ! idx a) = 0 then 6
                else w_interval (words a ! idx a) * update_ef (w_ef (words a ! idx a)) q)"
proof -
  let ?w = "words a ! idx a"
  have "1 \<le> update_ef (w_ef ?w) q"
    using update_ef_ge [of "w_ef ?w" q] by simp
  then have "w_interval ?w * 1 \<le> w_interval ?w * update_ef (w_ef ?w) q"
    using assms(5) by (intro mult_left_mono) simp_all
  then show ?thesis
    using assms by (simp add: answer_def py_index_nat answer_word_pass)
qed

theorem answer_interval_grows_witness:
  "\<exists>a'. answer 5 5000
           \<lparr>curr_path = None,
            words = [\<lparr>w_word = JStr (ustr ''a''), w_translation = JStr (ustr ''b''), w_ef = 2.6,
                      w_n = 1, w_interval = 6, w_last_review = 1000, w_is_new = None,
                      w_learn_date = None\<rparr>],
            all_words_cache = None, total_words = 1, idx = 0, rand = False, review_only = False,
            cfg = Map.empty, limit = 50, today = ustr ''2024-01-01'', today_count = 0,
            settings_file = None\<rparr> = (None, a')
         \<and> length (words a') = 1
         \<and> 6 \<le> w_interval (words a' ! 0)
         \<and> w_interval (words a' ! 0) = 16.2"
  using answer_interval_grows [of
           "\<lparr>curr_path = None,
            words = [\<lparr>w_word = JStr (ustr ''a''), w_translation = JStr (ustr ''b''), w_ef = 2.6,
                      w_n = 1, w_interval = 6, w_last_review = 1000, w_is_new = None,
                      w_learn_date = None\<rparr>],
            all_words_cache = None, total_words = 1, idx = 0, rand = False, review_only = False,
            cfg = Map.empty, limit = 50, today = ustr ''2024-01-01'', today_count = 0,
            settings_file = None\<rparr>" 5 5000]
  by (simp add: update_ef_def)

text \<open>
  C7 as stated fails: an item with ease factor 2.5, repetition count 0 and interval 100
  (as a cache file may hold it) answered with quality 5 gets the interval 6.
\<close>

theorem answer_interval_shrinks_counterexample:
  "1.0 \<le> w_ef \<lparr>w_word = JStr (ustr ''a''), w_translation = JStr (ustr ''b''), w_ef = 2.5,
              w_n = 0, w_interval = 100, w_last_review = 0, w_is_new = None,
              w_learn_date = None\<rparr>
   \<and> fst (answer 5 1
         \<lparr>curr_path = None,
          words = [\<lparr>w_word = JStr (ustr ''a''), w_translation = JStr (ustr ''b''), w_ef = 2.5,
                    w_n = 0, w_interval = 100, w_last_review = 0, w_is_new = None,
                    w_learn_date = None\<rparr>],
          all_words_cache = None, total_words = 1, idx = 0, rand = False, review_only = False,
          cfg = Map.empty, limit = 50, today = ustr ''2024-01-01'', today_count = 0,
          settings_file = None\<rparr>) = None
   \<and> map w_interval (words (snd (answer 5 1
         \<lparr>curr_path = None,
          words = [\<lparr>w_word = JStr (ustr ''a''), w_translation = JStr (ustr ''b''), w_ef = 2.5,
                    w_n = 0, w_interval = 100, w_last_review = 0, w_is_new = None,
                    w_learn_date = None\<rparr>],
          all_words_cache = None, total_words = 1, idx = 0, rand = False, review_only = False,
          cfg = Map.empty, limit = 50, today = ustr ''2024-01-01'', today_count = 0,
          settings_file = None\<rparr>))) = [6]"
  by (simp add: answer_def py_index_def answer_word_pass)

text \<open>
  The states the engine makes: a new item starts with repetition count 0 and interval 1, and
  \<^verbatim>\<open>answer\<close> keeps the count from falling below 0, the interval positive, and the interval 1
  whenever the count is 0.
\<close>

lemma answer_word_invariant:
  assumes "0 \<le> w_n w" and "0 < w_interval w" and "w_n w = 0 \<longrightarrow> w_interval w = 1"
  shows "fst (answer_word q now w) = None
         \<and> 0 \<le> w_n (snd (answer_word q now w))
         \<and> 0 < w_interval (snd (answer_word q now w))
         \<and> (w_n (snd (answer_word q now w)) = 0 \<longrightarrow> w_interval (snd (answer_word q now w)) = 1)"
proof (cases "q < 3")
  case True
  then show ?thesis by (simp add: answer_word_fail)
next
  case False
  have "0 < update_ef (w_ef w) q"
    using update_ef_ge [of "w_ef w" q] by simp
  then have "0 < w_interval w * update_ef (w_ef w) q"
    using assms(2) by simp
  with False assms show ?thesis by (simp add: answer_word_pass)
qed

section \<open>The weighted draw\<close>

lemma length_accumulate_from: "length (accumulate_from acc xs) = length xs"
  by (induction xs arbitrary: acc) simp_all

lemma length_accumulate: "length (accumulate xs) = length xs"
  by (cases xs) (simp_all add: accumulate_def length_accumulate_from)

lemma last_accumulate_from:
  "xs \<noteq> [] \<Longrightarrow> last (accumulate_from acc xs) = acc + sum_list xs"
proof (induction xs arbitrary: acc)
  case Nil
  then show ?case by simp
next
  case (Cons x xs)
  show ?case
  proof (cases xs)
    case Nil
    then show ?thesis by simp
  next
    case (Cons y ys)
    then have "accumulate_from (acc + x) xs \<noteq> []" by simp
    moreover have "last (accumulate_from (acc + x) xs) = acc + x + sum_list xs"
      using Cons.IH [of "acc + x"] Cons by simp
    ultimately show ?thesis by simp
  qed
qed

lemma last_accumulate: "xs \<noteq> [] \<Longrightarrow> last (accumulate xs) = sum_list xs"
proof (cases xs)
  case Nil
  assume "xs \<noteq> []"
  with Nil show ?thesis by simp
next
  case (Cons x xs')
  show ?thesis
  proof (cases xs')
    case Nil
    with Cons show ?thesis by (simp add: accumulate_def)
  next
    case (Cons y ys)
    then have "accumulate_from x xs' \<noteq> []" by simp
    moreover have "last (accumulate_from x xs') = x + sum_list xs'"
      using last_accumulate_from [of xs' x] Cons by simp
    ultimately show ?thesis
      using \<open>xs = x # xs'\<close> by (simp add: accumulate_def)
  qed
qed

lemma py_index_last: "xs \<noteq> [] \<Longrightarrow> py_index xs (- 1) = Inr (last xs)"
  by (simp add: py_index_def last_conv_nth nat_diff_distrib' Suc_leI)

lemma bisect_in_range:
  "hi \<le> length a \<Longrightarrow> lo \<le> hi \<Longrightarrow> \<exists>i. bisect a x lo hi = Inr i \<and> lo \<le> i \<and> i \<le> hi"
proof (induction a x lo hi rule: bisect.induct)
  case (1 a x lo hi)
  show ?case
  proof (cases "lo < hi")
    case False
    with "1.prems" show ?thesis by simp
  next
    case True
    let ?mid = "(lo + hi) div 2"
    have m: "?mid < length a" "lo \<le> ?mid" "?mid < hi"
      using True "1.prems" by simp_all
    show ?thesis
    proof (cases "x < a ! ?mid")
      case lt: True
      have "\<exists>i. bisect a x lo ?mid = Inr i \<and> lo \<le> i \<and> i \<le> ?mid"
        using "1.IH"(1) [OF True refl m(1) lt] m by simp
      then show ?thesis
        using True m lt by (subst bisect.simps) auto
    next
      case ge: False
      have "\<exists>i. bisect a x (?mid + 1) hi = Inr i \<and> ?mid + 1 \<le> i \<and> i \<le> hi"
        using "1.IH"(2) [OF True refl m(1) ge] "1.prems" m by simp
      then show ?thesis
        using True m ge by (subst bisect.simps) auto
    qed
  qed
qed

lemma choices_positive_total:
  assumes "length weights = length population" and "population \<noteq> []"
    and "0 < sum_list weights"
  shows "\<exists>i<length population. choices population weights r = Inr (population ! i)"
proof -
  let ?cum = "accumulate weights"
  have ne: "weights \<noteq> []"
    using assms(1,2) by auto
  have len: "length ?cum = length population"
    using assms(1) by (simp add: length_accumulate)
  then have cne: "?cum \<noteq> []"
    using assms(2) by auto
  have total: "py_index ?cum (- 1) = Inr (sum_list weights)"
    using py_index_last [OF cne] last_accumulate [OF ne] by simp
  have "length population - 1 \<le> length ?cum"
    using len by simp
  then obtain i where i: "bisect ?cum (random r * sum_list weights) 0 (length population - 1) = Inr i"
      "i \<le> length population - 1"
    using bisect_in_range [of "length population - 1" ?cum 0 "random r * sum_list weights"]
    by auto
  have lt: "i < length population"
    using i(2) assms(2) by (cases population) simp_all
  have "choices population weights r = Inr (population ! i)"
    using len total i(1) lt assms(3) by (simp add: choices_def Let_def exn_bind_def py_index_nat)
  with lt show ?thesis by blast
qed

lemma choices_nonpositive_total:
  assumes "length weights = length population" and "population \<noteq> []"
    and "sum_list weights \<le> 0"
  shows "choices population weights r = Inl ValueError"
proof -
  let ?cum = "accumulate weights"
  have ne: "weights \<noteq> []"
    using assms(1,2) by auto
  have len: "length ?cum = length population"
    using assms(1) by (simp add: length_accumulate)
  then have cne: "?cum \<noteq> []"
    using assms(2) by auto
  have total: "py_index ?cum (- 1) = Inr (sum_list weights)"
    using py_index_last [OF cne] last_accumulate [OF ne] by simp
  show ?thesis
    using len total assms(3) by (simp add: choices_def Let_def exn_bind_def)
qed

text \<open>
  The review branch: with a positive total of the weights it returns a learned item and
  makes it the active one; with a total that is not positive it raises ValueError.
\<close>

lemma get_word_review_positive:
  assumes "words a \<noteq> []" and "0 < sum_list (map (\<lambda>w. review_weight w now) (words a))"
  shows "\<exists>i<length (words a).
           get_word_review now f r a = (Inr (ReviewItem (words a ! i)), a\<lparr>idx := i\<rparr>)"
proof -
  obtain i where i: "i < length [0 ..< length (words a)]"
      "choices [0 ..< length (words a)] (map (\<lambda>w. review_weight w now) (words a)) r
         = Inr ([0 ..< length (words a)] ! i)"
    using choices_positive_total [of "map (\<lambda>w. review_weight w now) (words a)"
        "[0 ..< length (words a)]" r] assms
    by auto
  have lt: "i < length (words a)"
    using i(1) by simp
  then have "[0 ..< length (words a)] ! i = i"
    by simp
  with i(2) lt assms(1) have
    "get_word_review now f r a = (Inr (ReviewItem (words a ! i)), a\<lparr>idx := i\<rparr>)"
    by (simp add: get_word_review_def Let_def py_index_nat)
  with lt show ?thesis by blast
qed

lemma get_word_review_nonpositive:
  assumes "words a \<noteq> []" and "sum_list (map (\<lambda>w. review_weight w now) (words a)) \<le> 0"
  shows "get_word_review now f r a = (Inl ValueError, a)"
  using assms
    choices_nonpositive_total [of "map (\<lambda>w. review_weight w now) (words a)"
      "[0 ..< length (words a)]" r]
  by (simp add: get_word_review_def Let_def)

lemma review_weight_no_elapsed:
  "w_last_review w = now \<Longrightarrow> 0 < w_interval w \<Longrightarrow> review_weight w now = 0"
  by (simp add: review_weight_def)

lemma review_weight_nonpositive_interval: "w_interval w \<le> 0 \<Longrightarrow> review_weight w now = 1"
  by (simp add: review_weight_def)

lemma sum_list_weights_one:
  "list_all (\<lambda>w. w_interval w \<le> 0) ws
   \<Longrightarrow> sum_list (map (\<lambda>w. review_weight w now) ws) = real (length ws)"
  by (induction ws) (simp_all add: review_weight_nonpositive_interval)

lemma get_word_review_nonpositive_intervals:
  assumes "words a \<noteq> []" and "list_all (\<lambda>w. w_interval w \<le> 0) (words a)"
  shows "\<exists>i<length (words a).
           get_word_review now f r a = (Inr (ReviewItem (words a ! i)), a\<lparr>idx := i\<rparr>)"
proof -
  have "sum_list (map (\<lambda>w. review_weight w now) (words a)) = real (length (words a))"
    using assms(2) by (rule sum_list_weights_one)
  then have "0 < sum_list (map (\<lambda>w. review_weight w now) (words a))"
    using assms(1) by simp
  with assms(1) show ?thesis
    by (rule get_word_review_positive)
qed

text \<open>
  C1. The review branch with every overdue weight zero: one learned item, reviewed at the very
  millisecond of the query. The weights total zero and the draw raises ValueError; no item is
  returned.
\<close>

theorem get_word_zero_weights_raises:
  "fst (get_word (ustr ''2024-01-02'') 1000 [] 0
     \<lparr>curr_path = Some (ustr ''assets/w.txt''),
      words = [\<lparr>w_word = JStr (ustr ''a''), w_translation = JStr (ustr ''b''), w_ef = 2.5,
                w_n = 1, w_interval = 6, w_last_review = 1000, w_is_new = None,
                w_learn_date = None\<rparr>],
      all_words_cache = None, total_words = 1, idx = 0, rand = False, review_only = True,
      cfg = Map.empty, limit = 50, today = ustr ''2024-01-02'', today_count = 0,
      settings_file = None\<rparr>) = Inl ValueError"
  by (simp add: get_word_def rollover_def get_word_review_def review_weight_def choices_def
        accumulate_def py_index_def exn_bind_def)

section \<open>Counting the word list\<close>

lemma length_split_sep: "length (split_sep sep acc s) = Suc (count_list s sep)"
  by (induction s arbitrary: acc) simp_all







section \<open>The cache: saving and loading\<close>

lemma truncate_of_int: "trunc (of_int i) = i"
  by (simp add: trunc_def)

lemma load_item_save_row:
  "load_item str_float str_int (save_row w) = Inr (w\<lparr>w_is_new := None, w_learn_date := None\<rparr>)"
  by (cases w)
     (simp add: load_item_def save_row_def py_getitem_def py_index_def exn_bind_def
        py_float_def py_int_def truncate_of_int)

lemma load_items_save_rows:
  "load_items str_float str_int (map save_row ws)
     = Inr (map (\<lambda>w. w\<lparr>w_is_new := None, w_learn_date := None\<rparr>) ws)"
  by (induction ws) (simp_all add: load_item_save_row exn_bind_def)

lemma load_cache_save_wordlist:
  "load_cache str_float str_int (Inr (save_wordlist ws))
     = Inr (map (\<lambda>w. w\<lparr>w_is_new := None, w_learn_date := None\<rparr>) ws)"
  by (simp add: load_cache_def save_wordlist_def get_WORDLIST_def py_iter_def exn_bind_def
        load_items_save_rows)


text \<open>
  What makes the cache fail to parse: a file that cannot be opened or decoded, a document
  that is no dictionary, a \<^verbatim>\<open>WORDLIST\<close> that cannot be iterated over, and any item whose
  conversion raises, such as a row of fewer than six fields.
\<close>

lemma load_cache_undecodable: "load_cache str_float str_int (Inl e) = Inl e"
  by (simp add: load_cache_def exn_bind_def)

lemma load_cache_no_dictionary:
  "isl (load_cache str_float str_int (Inr doc)) \<or> (\<exists>kvs. doc = JObj kvs)"
  by (cases doc) (simp_all add: load_cache_def exn_bind_def get_WORDLIST_def)

lemma load_items_bad_item:
  "list_ex (\<lambda>w. isl (load_item str_float str_int w)) rows
   \<Longrightarrow> isl (load_items str_float str_int rows)"
  by (induction rows) (auto simp: exn_bind_def split: sum.splits)

lemma load_item_short_row:
  "length xs < 6 \<Longrightarrow> isl (load_item str_float str_int (JArr xs))"
  by (auto simp: load_item_def exn_bind_def py_getitem_def py_index_def split: sum.splits)



text \<open>
  C10. The document that \<^verbatim>\<open>save_wordlist\<close> writes has one row of exactly six values for each
  item: word, translation, ease factor, repetition count, interval and time of last review.
  The keys \<^verbatim>\<open>is_new\<close> and \<^verbatim>\<open>learn_date\<close> that an item may carry in memory are not written:
  the document is the same whatever they hold, and no item loaded from it has them.
\<close>

theorem save_drops_extra_keys:
  "save_wordlist ws
     = JObj [(ustr ''WORDLIST'',
             JArr (map (\<lambda>w. JArr [w_word w, w_translation w, JNum (w_ef w), JNum (of_int (w_n w)),
                                   JNum (w_interval w), JNum (of_int (w_last_review w))]) ws))]
   \<and> save_wordlist (map (\<lambda>w. w\<lparr>w_is_new := new w, w_learn_date := date w\<rparr>) ws) = save_wordlist ws
   \<and> map w_is_new (fst (load_wordlist str_float str_int f (Some (Inr (save_wordlist ws)))))
       = map (\<lambda>w. None) ws
   \<and> map w_learn_date (fst (load_wordlist str_float str_int f (Some (Inr (save_wordlist ws)))))
       = map (\<lambda>w. None) ws"
proof -
  have rows: "save_wordlist ws
     = JObj [(ustr ''WORDLIST'',
             JArr (map (\<lambda>w. JArr [w_word w, w_translation w, JNum (w_ef w), JNum (of_int (w_n w)),
                                   JNum (w_interval w), JNum (of_int (w_last_review w))]) ws))]"
    by (simp add: save_wordlist_def save_row_def)
  have same: "save_wordlist (map (\<lambda>w. w\<lparr>w_is_new := new w, w_learn_date := date w\<rparr>) ws)
     = save_wordlist ws"
    by (simp add: save_wordlist_def save_row_def comp_def)
  have loaded: "fst (load_wordlist str_float str_int f (Some (Inr (save_wordlist ws))))
     = map (\<lambda>w. w\<lparr>w_is_new := None, w_learn_date := None\<rparr>) ws"
    by (simp add: load_wordlist_def Let_def load_cache_save_wordlist)
  have "map w_is_new (fst (load_wordlist str_float str_int f (Some (Inr (save_wordlist ws)))))
     = map (\<lambda>w. None) ws"
    unfolding loaded by (simp add: comp_def)
  moreover
  have "map w_learn_date (fst (load_wordlist str_float str_int f (Some (Inr (save_wordlist ws)))))
     = map (\<lambda>w. None) ws"
    unfolding loaded by (simp add: comp_def)
  ultimately show ?thesis
    using rows same by simp
qed

section \<open>Choosing the next item\<close>

text \<open>What a query changes: the quota block apart, only \<^verbatim>\<open>_all_words\<close> and \<^verbatim>\<open>idx\<close>.\<close>

lemma load_all_frame:
  "snd (load_all f a) = a\<lparr>all_words_cache := all_words_cache (snd (load_all f a))\<rparr>"
  by (simp add: load_all_def Let_def)

lemma all_words_frame:
  "snd (all_words f a) = a\<lparr>all_words_cache := all_words_cache (snd (all_words f a))\<rparr>"
proof (cases "all_words_cache a")
  case None
  obtain e a' where l: "load_all f a = (e, a')"
    by (cases "load_all f a")
  have "a' = a\<lparr>all_words_cache := all_words_cache a'\<rparr>"
    using load_all_frame [of f a] l by simp
  with None l show ?thesis
    by (cases e) (simp_all add: all_words_def)
next
  case (Some aw)
  then show ?thesis by (simp add: all_words_def)
qed

lemma all_words_words: "words (snd (all_words f a)) = words a"
  using arg_cong [OF all_words_frame [of f a], of words] by simp

lemma get_word_review_frame:
  "snd (get_word_review now f r a)
     = a\<lparr>all_words_cache := all_words_cache (snd (get_word_review now f r a)),
          idx := idx (snd (get_word_review now f r a))\<rparr>"
proof (cases "words a = []")
  case True
  obtain x a' where l: "all_words f a = (x, a')"
    by (cases "all_words f a")
  have "a' = a\<lparr>all_words_cache := all_words_cache a'\<rparr>"
    using all_words_frame [of f a] l by simp
  then have "a' = a\<lparr>all_words_cache := all_words_cache a', idx := idx a'\<rparr>"
    by (metis app.surjective app.update_convs(3) app.update_convs(5) app.select_convs(5))
  with True l show ?thesis
    by (simp add: get_word_review_def split: sum.splits option.splits)
next
  case False
  then show ?thesis
    by (simp add: get_word_review_def Let_def split: sum.splits)
qed

lemma get_word_review_quota:
  "today (snd (get_word_review now f r a)) = today a
   \<and> today_count (snd (get_word_review now f r a)) = today_count a
   \<and> cfg (snd (get_word_review now f r a)) = cfg a
   \<and> settings_file (snd (get_word_review now f r a)) = settings_file a
   \<and> words (snd (get_word_review now f r a)) = words a"
proof -
  let ?a' = "snd (get_word_review now f r a)"
  have e: "?a' = a\<lparr>all_words_cache := all_words_cache ?a', idx := idx ?a'\<rparr>"
    by (rule get_word_review_frame)
  show ?thesis
    using arg_cong [OF e, of today] arg_cong [OF e, of today_count] arg_cong [OF e, of cfg]
      arg_cong [OF e, of settings_file] arg_cong [OF e, of words]
    by simp
qed

lemma all_words_quota:
  "today (snd (all_words f a)) = today a
   \<and> today_count (snd (all_words f a)) = today_count a
   \<and> cfg (snd (all_words f a)) = cfg a
   \<and> settings_file (snd (all_words f a)) = settings_file a"
proof -
  let ?a' = "snd (all_words f a)"
  have e: "?a' = a\<lparr>all_words_cache := all_words_cache ?a'\<rparr>"
    by (rule all_words_frame)
  show ?thesis
    using arg_cong [OF e, of today] arg_cong [OF e, of today_count] arg_cong [OF e, of cfg]
      arg_cong [OF e, of settings_file]
    by simp
qed

lemma get_word_quota:
  "today (snd (get_word d now f r a)) = today (rollover d a)
   \<and> today_count (snd (get_word d now f r a)) = today_count (rollover d a)
   \<and> cfg (snd (get_word d now f r a)) = cfg (rollover d a)
   \<and> settings_file (snd (get_word d now f r a)) = settings_file (rollover d a)
   \<and> words (snd (get_word d now f r a)) = words a"
proof -
  let ?a = "rollover d a"
  have w: "words ?a = words a"
    by (simp add: rollover_def Let_def)
  obtain x a' where l: "all_words f ?a = (x, a')"
    by (cases "all_words f ?a")
  have q: "today a' = today ?a \<and> today_count a' = today_count ?a \<and> cfg a' = cfg ?a
           \<and> settings_file a' = settings_file ?a"
    using all_words_quota [of f ?a] l by simp
  have w': "words a' = words ?a"
    using all_words_words [of f ?a] l by simp
  show ?thesis
    using l q w w' get_word_review_quota [of now f r ?a] get_word_review_quota [of now f r a']
    by (simp add: get_word_def Let_def choice_def split: sum.splits option.splits)
qed

lemma rollover_stale:
  "d \<noteq> today a \<Longrightarrow>
   today (rollover d a) = d \<and> today_count (rollover d a) = 0
   \<and> cfg (rollover d a) (ustr ''TODAY_DATE'') = Some (CStr d)
   \<and> cfg (rollover d a) (ustr ''TODAY_COUNT'') = Some (CInt 0)
   \<and> settings_file (rollover d a) = Some (cfg (rollover d a))"
  by (simp add: rollover_def Let_def ustr_def)

lemma rollover_any_count:
  "d \<noteq> today a \<Longrightarrow> rollover d (a\<lparr>today_count := k\<rparr>) = rollover d a"
  by (simp add: rollover_def Let_def)

text \<open>
  After \<^verbatim>\<open>__init__\<close> the stored date is the day of the start, in the state and in the
  settings, and the count is 0 if the settings held another day.
\<close>

lemma init_app_date:
  assumes "init_app str_int cfg0 d = Inr a"
  shows "today a = d \<and> cfg a (ustr ''TODAY_DATE'') = Some (CStr d)
         \<and> (cfg0 (ustr ''TODAY_DATE'') \<noteq> Some (CStr d) \<longrightarrow> today_count a = 0)"
  using assms
  by (auto simp: init_app_def exn_bind_def Let_def ustr_def split: sum.splits option.splits if_splits)

text \<open>
  C5. A query on a day \<open>d\<close> other than the stored date: the count of new items is set to 0
  and the stored date to \<open>d\<close>, in the state and in the settings, before the count is compared
  with the limit. The query therefore does not depend on the stale count: it gives what it
  gives when the count is 0, and leaves the count 0 and the date \<open>d\<close>.
\<close>

theorem get_word_day_rollover:
  assumes "d \<noteq> today a"
  shows "get_word d now f r a = get_word d now f r (a\<lparr>today_count := 0\<rparr>)
         \<and> get_word d now f r a = get_word d now f r (a\<lparr>today_count := k\<rparr>)
         \<and> today (snd (get_word d now f r a)) = d
         \<and> today_count (snd (get_word d now f r a)) = 0
         \<and> cfg (snd (get_word d now f r a)) (ustr ''TODAY_DATE'') = Some (CStr d)
         \<and> cfg (snd (get_word d now f r a)) (ustr ''TODAY_COUNT'') = Some (CInt 0)
         \<and> settings_file (snd (get_word d now f r a)) = Some (cfg (snd (get_word d now f r a)))"
proof -
  have any: "get_word d now f r (a\<lparr>today_count := j\<rparr>) = get_word d now f r a" for j
    using rollover_any_count [OF assms, of j] by (simp add: get_word_def)
  show ?thesis
    using any [of 0] any [of k] rollover_stale [OF assms] get_word_quota [of d now f r a]
    by simp
qed

theorem get_word_day_rollover_witness:
  "ustr ''2024-01-02'' \<noteq> ustr ''2024-01-01''
   \<and> get_word (ustr ''2024-01-02'') 1000 [[97, 9, 98, 10]] 0
         \<lparr>curr_path = Some (ustr ''assets/w.txt''), words = [], all_words_cache = None,
          total_words = 1, idx = 0, rand = False, review_only = False, cfg = Map.empty,
          limit = 50, today = ustr ''2024-01-01'', today_count = 50, settings_file = None\<rparr>
       = get_word (ustr ''2024-01-02'') 1000 [[97, 9, 98, 10]] 0
           (\<lparr>curr_path = Some (ustr ''assets/w.txt''), words = [], all_words_cache = None,
          total_words = 1, idx = 0, rand = False, review_only = False, cfg = Map.empty,
          limit = 50, today = ustr ''2024-01-01'', today_count = 50, settings_file = None\<rparr>\<lparr>today_count := 0\<rparr>)
   \<and> today (snd (get_word (ustr ''2024-01-02'') 1000 [[97, 9, 98, 10]] 0
         \<lparr>curr_path = Some (ustr ''assets/w.txt''), words = [], all_words_cache = None,
          total_words = 1, idx = 0, rand = False, review_only = False, cfg = Map.empty,
          limit = 50, today = ustr ''2024-01-01'', today_count = 50, settings_file = None\<rparr>)) = ustr ''2024-01-02''
   \<and> today_count (snd (get_word (ustr ''2024-01-02'') 1000 [[97, 9, 98, 10]] 0
         \<lparr>curr_path = Some (ustr ''assets/w.txt''), words = [], all_words_cache = None,
          total_words = 1, idx = 0, rand = False, review_only = False, cfg = Map.empty,
          limit = 50, today = ustr ''2024-01-01'', today_count = 50, settings_file = None\<rparr>)) = 0
   \<and> sel_word (projr (fst (get_word (ustr ''2024-01-02'') 1000 [[97, 9, 98, 10]] 0
         \<lparr>curr_path = Some (ustr ''assets/w.txt''), words = [], all_words_cache = None,
          total_words = 1, idx = 0, rand = False, review_only = False, cfg = Map.empty,
          limit = 50, today = ustr ''2024-01-01'', today_count = 50, settings_file = None\<rparr>))) = [97]"
proof -
  have ne: "ustr ''2024-01-02'' \<noteq> ustr ''2024-01-01''"
    by (simp add: ustr_def)
  have stale: "ustr ''2024-01-02'' \<noteq> today
         \<lparr>curr_path = Some (ustr ''assets/w.txt''), words = [], all_words_cache = None,
          total_words = 1, idx = 0, rand = False, review_only = False, cfg = Map.empty,
          limit = 50, today = ustr ''2024-01-01'', today_count = 50, settings_file = None\<rparr>"
    by (simp add: ustr_def)
  have new: "sel_word (projr (fst (get_word (ustr ''2024-01-02'') 1000 [[97, 9, 98, 10]] 0
         \<lparr>curr_path = Some (ustr ''assets/w.txt''), words = [], all_words_cache = None,
          total_words = 1, idx = 0, rand = False, review_only = False, cfg = Map.empty,
          limit = 50, today = ustr ''2024-01-01'', today_count = 50, settings_file = None\<rparr>))) = [97]"
    by (simp add: get_word_def rollover_def ustr_def all_words_def load_all_def all_entries_def
          stripped_lines_def strip_def isspace_def split_line_def tab_def choice_def
          randbelow_def Let_def)
  note t = get_word_day_rollover [of "ustr ''2024-01-02''"
         "\<lparr>curr_path = Some (ustr ''assets/w.txt''), words = [], all_words_cache = None,
          total_words = 1, idx = 0, rand = False, review_only = False, cfg = Map.empty,
          limit = 50, today = ustr ''2024-01-01'', today_count = 50, settings_file = None\<rparr>" 1000 "[[97, 9, 98, 10]]" 0 0, OF stale]
  from ne t new show ?thesis
    by blast
qed


lemma randbelow_uniform:
  assumes "i < k"
  shows "card {r. r < m * k \<and> randbelow k r = i} = m"
proof -
  have "{r. r < m * k \<and> r mod k = i} = (\<lambda>j. j * k + i) ` {..<m}"
  proof (rule set_eqI, rule iffI)
    fix r
    assume "r \<in> {r. r < m * k \<and> r mod k = i}"
    then have r: "r < m * k" "r mod k = i" by simp_all
    have "r div k < m"
      using r(1) assms by (simp add: less_mult_imp_div_less)
    moreover have "r = (r div k) * k + i"
      using r(2) by (metis div_mult_mod_eq)
    ultimately show "r \<in> (\<lambda>j. j * k + i) ` {..<m}" by blast
  next
    fix r
    assume "r \<in> (\<lambda>j. j * k + i) ` {..<m}"
    then obtain j where j: "j < m" "r = j * k + i" by blast
    have "j * k + i < j * k + k" using assms by simp
    also have "\<dots> = Suc j * k" by simp
    also have "\<dots> \<le> m * k" using j(1) by (intro mult_le_mono1) simp
    finally have "r < m * k" using j(2) by simp
    moreover have "r mod k = i" using j(2) assms by simp
    ultimately show "r \<in> {r. r < m * k \<and> r mod k = i}" by simp
  qed
  moreover have "inj_on (\<lambda>j. j * k + i) {..<m}"
    using assms by (intro inj_onI) simp
  ultimately show ?thesis
    by (simp add: randbelow_def card_image)
qed

text \<open>
  The entries that a query may introduce, when \<^verbatim>\<open>_all_words\<close> is still to be loaded: the
  entries of the file whose word is the word of no learned item.
\<close>

lemma all_words_fresh:
  assumes "all_words_cache a = None" and "curr_path a = Some p"
    and "\<not> list_ex (\<lambda>w. unhashable (w_word w)) (words a)"
  shows "all_words f a
     = (Inr (Some (map (\<lambda>w. w\<lparr>a_is_learned := JStr (a_word w) \<in> set (map w_word (words a))\<rparr>)
                     (all_entries f))),
        a\<lparr>all_words_cache :=
            Some (map (\<lambda>w. w\<lparr>a_is_learned := JStr (a_word w) \<in> set (map w_word (words a))\<rparr>)
                    (all_entries f))\<rparr>)"
  using assms by (simp add: all_words_def load_all_def Let_def)

lemma unlearned_fresh:
  "map a_word (filter (\<lambda>w. \<not> a_is_learned w)
      (map (\<lambda>w. w\<lparr>a_is_learned := JStr (a_word w) \<in> learned\<rparr>) es))
   = filter (\<lambda>x. JStr x \<notin> learned) (map a_word es)"
  by (induction es) simp_all



end
